theory Spec2Isabelle
  imports Main "HOL-Library.Word"
begin

unbundle bit_operations_syntax

section \<open>Python values used by the package\<close>

text \<open>
  A Python \<open>str\<close> is modelled by its UTF-8 bytes (\<open>string\<close>). Splitting on
  \<open>;\<close> and searching for a marker act on bytes exactly as they act on code points.
  \<open>isspace\<close> lists the ASCII characters for which \<open>str.isspace\<close> holds; text whose
  only white space is ASCII is what the model covers.
\<close>

datatype error =
    ValueError string
  | NotImplementedError string
  | OtherError string

definition isspace :: "char \<Rightarrow> bool" where
  "isspace c = (c \<in> set [CHR 0x09, CHR 0x0A, CHR 0x0B, CHR 0x0C, CHR 0x0D,
                            CHR 0x1C, CHR 0x1D, CHR 0x1E, CHR 0x1F, CHR 0x20])"

definition strip :: "string \<Rightarrow> string" where
  "strip s = rev (dropWhile isspace (rev (dropWhile isspace s)))"

text \<open>\<open>s.split(sep)\<close> for a one-character separator: never an empty list.\<close>

fun split_str :: "char \<Rightarrow> string \<Rightarrow> string list" where
  "split_str c [] = [[]]"
| "split_str c (x # xs) =
     (if x = c then [] # split_str c xs
      else (case split_str c xs of [] \<Rightarrow> [[x]] | y # ys \<Rightarrow> (x # y) # ys))"

definition startswith :: "string \<Rightarrow> string \<Rightarrow> bool" where
  "startswith s p = (take (length p) s = p)"

text \<open>\<open>sub in s\<close>.\<close>

fun contains :: "string \<Rightarrow> string \<Rightarrow> bool" where
  "contains sub [] = (sub = [])"
| "contains sub (x # xs) = (startswith (x # xs) sub \<or> contains sub xs)"

text \<open>The text that follows the leftmost occurrence of a marker, if there is one.\<close>

fun after_first :: "string \<Rightarrow> string \<Rightarrow> string option" where
  "after_first m [] = (if m = [] then Some [] else None)"
| "after_first m (x # xs) =
     (if startswith (x # xs) m then Some (drop (length m) (x # xs)) else after_first m xs)"

text \<open>The text before the leftmost occurrence of a marker, all of it if there is none.\<close>

fun before_first :: "string \<Rightarrow> string \<Rightarrow> string" where
  "before_first m [] = []"
| "before_first m (x # xs) = (if startswith (x # xs) m then [] else x # before_first m xs)"

text \<open>\<open>str(n)\<close> for a non-negative integer.\<close>

fun str_nat :: "nat \<Rightarrow> string" where
  "str_nat n =
     (if n < 10 then [''0123456789'' ! n]
      else str_nat (n div 10) @ [''0123456789'' ! (n mod 10)])"

declare str_nat.simps [simp del]

section \<open>binascii.crc32\<close>

text \<open>
  The CRC-32 of zlib, bit by bit (reflected polynomial \<open>0xEDB88320\<close>), with the running
  value passed as second argument; \<open>binascii.crc32(data)\<close> is \<open>crc32 data 0\<close>.
\<close>

definition crc_shift :: "32 word \<Rightarrow> 32 word" where
  "crc_shift c = (if bit c 0 then drop_bit 1 c XOR 0xEDB88320 else drop_bit 1 c)"

definition crc32_byte :: "32 word \<Rightarrow> char \<Rightarrow> 32 word" where
  "crc32_byte c b =
     crc_shift (crc_shift (crc_shift (crc_shift (crc_shift (crc_shift (crc_shift (crc_shift
       (c XOR of_char b))))))))"

definition crc32 :: "string \<Rightarrow> 32 word \<Rightarrow> 32 word" where
  "crc32 data v = foldl crc32_byte (v XOR 0xFFFFFFFF) data XOR 0xFFFFFFFF"

section \<open>migration.py\<close>

text \<open>
  A migration body works on the content \<open>'d\<close> of the migrated database inside a
  transaction: it returns the new content or raises.
\<close>

type_synonym 'd body = "'d \<Rightarrow> error + 'd"

text \<open>
  The classes \<open>Migration\<close>, \<open>PythonMigration\<close> and \<open>CypherMigration\<close>: the fields of
  the base class in a record, the fields of the subclass in \<open>impl\<close>. The attribute
  \<open>parsed_version\<close> is derived from \<open>version\<close> and is not stored.
\<close>

datatype 'd impl =
    BaseImpl
  | PythonImpl (code: "'d body") (rollback_code: "'d body option")
  | CypherImpl (query: string) (statements: "string list") (rollback_statements: "string list")

record 'd migration =
  version :: string
  description :: string
  mtype :: string
  source :: "string option"
  checksum :: "string option"
  rollback_checksum :: "string option"
  impl :: "'d impl"

definition UP_MARK :: string where
  "UP_MARK = [CHR 0xE2, CHR 0x86, CHR 0x91] @ ''UP-MIGRATION''"

definition DOWN_MARK :: string where
  "DOWN_MARK = ''// '' @ [CHR 0xE2, CHR 0x86, CHR 0x93] @ ''DOWN-MIGRATION''"

text \<open>
  \<open>content.split(";") if content else []\<close>, then the last segment dropped when it is
  blank.
\<close>

definition section_statements :: "string \<Rightarrow> string list" where
  "section_statements content =
     (let sts = (if content \<noteq> [] then split_str CHR '';'' content else [])
      in if sts \<noteq> [] \<and> strip (last sts) = [] then butlast sts else sts)"

text \<open>
  \<open>CypherMigration._parse_statements\<close>. The two regular expressions are searched from
  the left: the forward section is what follows the first up marker, as far as the next
  down marker or the end; the down section is what follows the first down marker. Both are
  stripped, so the white space that \<open>\s*\<close> and \<open>$\<close> leave out makes no difference.
\<close>

definition parse_statements :: "string \<Rightarrow> string list \<times> string list" where
  "parse_statements q =
     (if \<not> contains UP_MARK q \<and> \<not> contains DOWN_MARK q
      then (butlast (split_str CHR '';'' q), [])
      else
        let forward_content =
              (case after_first UP_MARK q of
                 Some r \<Rightarrow> strip (before_first DOWN_MARK r)
               | None \<Rightarrow> []);
            down_content =
              (case after_first DOWN_MARK q of
                 Some r \<Rightarrow> strip r
               | None \<Rightarrow> [])
        in (section_statements forward_content, section_statements down_content))"

text \<open>
  The checksum loop of \<open>__attrs_post_init__\<close>: the running value is \<open>None\<close> at the
  start; a running value that is \<open>None\<close> or 0 is falsy and starts the CRC afresh.
\<close>

fun crc_loop :: "32 word option \<Rightarrow> string list \<Rightarrow> 32 word option" where
  "crc_loop c [] = c"
| "crc_loop c (st # sts) =
     crc_loop (Some (case c of
                       None \<Rightarrow> crc32 st 0
                     | Some v \<Rightarrow> if v \<noteq> 0 then crc32 st v else crc32 st 0)) sts"

definition checksum_of :: "string list \<Rightarrow> string option" where
  "checksum_of sts =
     (case crc_loop None sts of
        None \<Rightarrow> None
      | Some v \<Rightarrow> if v \<noteq> 0 then Some (str_nat (unat v)) else None)"

definition clean :: "string list \<Rightarrow> string list" where
  "clean sts = filter (\<lambda>statement. statement \<noteq> []) (map strip sts)"

definition CypherMigration ::
  "string \<Rightarrow> string \<Rightarrow> string option \<Rightarrow> string \<Rightarrow> 'd migration" where
  "CypherMigration v descr src q =
     (let (forward_statements, down_statements) = parse_statements q;
          sts = clean forward_statements;
          rsts = clean down_statements
      in \<lparr> version = v, description = descr, mtype = ''CYPHER'', source = src,
           checksum = checksum_of sts, rollback_checksum = checksum_of rsts,
           impl = CypherImpl q sts rsts \<rparr>)"

definition PythonMigration ::
  "string \<Rightarrow> string \<Rightarrow> string option \<Rightarrow> 'd body \<Rightarrow> 'd body option \<Rightarrow> 'd migration" where
  "PythonMigration v descr src c rc =
     \<lparr> version = v, description = descr, mtype = ''PYTHON'', source = src,
       checksum = None, rollback_checksum = None, impl = PythonImpl c rc \<rparr>"

text \<open>\<open>Migration.from_dict\<close>: what \<open>get_applied_migrations\<close> builds from a row.\<close>

definition Migration ::
  "string \<Rightarrow> string \<Rightarrow> string \<Rightarrow> string option \<Rightarrow> string option \<Rightarrow> 'd migration" where
  "Migration v descr t src cs =
     \<lparr> version = v, description = descr, mtype = t, source = src,
       checksum = cs, rollback_checksum = None, impl = BaseImpl \<rparr>"

text \<open>The statements a migration holds (none unless it is a Cypher script).\<close>

definition statements_of :: "'d migration \<Rightarrow> string list" where
  "statements_of m = (case impl m of CypherImpl _ sts _ \<Rightarrow> sts | _ \<Rightarrow> [])"

definition rollback_statements_of :: "'d migration \<Rightarrow> string list" where
  "rollback_statements_of m = (case impl m of CypherImpl _ _ rsts \<Rightarrow> rsts | _ \<Rightarrow> [])"

text \<open>
  \<open>for statement in statements: tx.run(statement)\<close>, with \<open>run\<close> the effect of one
  statement in the store; the first statement that raises ends the loop.
\<close>

fun run_all :: "(string \<Rightarrow> 'd body) \<Rightarrow> string list \<Rightarrow> 'd body" where
  "run_all run [] d = Inr d"
| "run_all run (st # sts) d =
     (case run st d of Inl e \<Rightarrow> Inl e | Inr d' \<Rightarrow> run_all run sts d')"

definition apply_migration :: "(string \<Rightarrow> 'd body) \<Rightarrow> 'd migration \<Rightarrow> 'd body" where
  "apply_migration run m d =
     (case impl m of
        BaseImpl \<Rightarrow> Inl (NotImplementedError [])
      | PythonImpl c _ \<Rightarrow> c d
      | CypherImpl _ sts _ \<Rightarrow> run_all run sts d)"

definition rollback_migration :: "(string \<Rightarrow> 'd body) \<Rightarrow> 'd migration \<Rightarrow> 'd body" where
  "rollback_migration run m d =
     (case impl m of
        BaseImpl \<Rightarrow> Inl (NotImplementedError [])
      | PythonImpl _ rc \<Rightarrow>
          (case rc of
             None \<Rightarrow>
               Inl (NotImplementedError (''Rollback not implemented for migration V'' @ version m))
           | Some f \<Rightarrow> f d)
      | CypherImpl _ _ rsts \<Rightarrow>
          (if rsts = []
           then Inl (NotImplementedError (''Rollback not implemented for migration V'' @ version m))
           else run_all run rsts d))"

text \<open>A migration has a backward body when \<open>rollback\<close> does not refuse at once.\<close>

definition has_backward_body :: "'d migration \<Rightarrow> bool" where
  "has_backward_body m =
     (case impl m of
        BaseImpl \<Rightarrow> False
      | PythonImpl _ rc \<Rightarrow> rc \<noteq> None
      | CypherImpl _ _ rsts \<Rightarrow> rsts \<noteq> [])"

section \<open>Version order\<close>

text \<open>
  \<open>Migration.__lt__\<close> compares \<open>parsed_version\<close>, a \<open>Version\<close> of the
  \<open>packaging\<close> library. The model covers the versions that are a release segment
  only: digits separated by dots, which \<open>Version\<close> reads as a tuple of integers.
  \<open>parse_release\<close> is \<open>None\<close> on any other text (rejected by the library, or carrying
  an epoch, pre, post, dev or local segment). For release-only versions the comparison key
  of the library (\<open>_cmpkey\<close>) differs in the release alone, taken with its trailing
  zeros removed, and keys compare as Python tuples.
\<close>

definition is_digit :: "char \<Rightarrow> bool" where
  "is_digit c = (c \<in> set ''0123456789'')"

definition int_of_digits :: "string \<Rightarrow> nat" where
  "int_of_digits s = foldl (\<lambda>n c. 10 * n + (of_char c - 48)) 0 s"

definition parse_release :: "string \<Rightarrow> nat list option" where
  "parse_release s =
     (let parts = split_str CHR ''.'' s
      in if list_all (\<lambda>p. p \<noteq> [] \<and> list_all is_digit p) parts
         then Some (map int_of_digits parts) else None)"

definition cmpkey :: "nat list \<Rightarrow> nat list" where
  "cmpkey release = rev (dropWhile (\<lambda>x. x = 0) (rev release))"

definition Version :: "string \<Rightarrow> nat list option" where
  "Version s = map_option cmpkey (parse_release s)"

fun tuple_lt :: "nat list \<Rightarrow> nat list \<Rightarrow> bool" where
  "tuple_lt [] [] = False"
| "tuple_lt [] (y # ys) = True"
| "tuple_lt (x # xs) [] = False"
| "tuple_lt (x # xs) (y # ys) = (if x = y then tuple_lt xs ys else x < y)"

definition migration_lt :: "'d migration \<Rightarrow> 'e migration \<Rightarrow> bool option" where
  "migration_lt a b =
     (case (Version (version a), Version (version b)) of
        (Some ka, Some kb) \<Rightarrow> Some (tuple_lt ka kb)
      | _ \<Rightarrow> None)"

section \<open>dao.py\<close>

text \<open>
  The store is Neo4j: what it answers to each query of \<open>MigrationDAO\<close>, as a function of
  the content \<open>'g\<close> of the schema database, and what a statement of a script does to the
  content \<open>'d\<close> of the migrated database. It is a parameter of the model. The store
  answers every query (no connection failure) and every commit succeeds.
\<close>

record counters =
  nodes_created :: int
  relationships_created :: int

datatype duration = Zero | Measured

type_synonym row = "string \<times> string \<times> string \<times> string option \<times> string option"

record ('d, 'g) store =
  run :: "string \<Rightarrow> 'd body"
  baseline_exists :: "'g \<Rightarrow> bool"
  create_baseline_node :: "'g \<Rightarrow> 'g"
  create_constraint :: "'g \<Rightarrow> 'g"
  add_query :: "'d migration \<Rightarrow> duration \<Rightarrow> 'g \<Rightarrow> 'g \<times> counters"
  applied_query :: "'g \<Rightarrow> row list"
  match_entry :: "string \<Rightarrow> 'g \<Rightarrow> bool option"
  relink_query :: "string \<Rightarrow> 'g \<Rightarrow> 'g"
  delete_query :: "string \<Rightarrow> 'g \<Rightarrow> 'g \<times> int option"

definition create_baseline :: "('d, 'g) store \<Rightarrow> 'g \<Rightarrow> 'g" where
  "create_baseline st g = (if baseline_exists st g then g else create_baseline_node st g)"

definition create_constraints :: "('d, 'g) store \<Rightarrow> 'g \<Rightarrow> 'g" where
  "create_constraints st g = create_constraint st g"

text \<open>
  \<open>add_migration\<close>: the query runs in a transaction; a dry run rolls it back; the
  counters are checked; leaving the \<open>with\<close> block by the exception rolls the transaction
  back, leaving it normally commits what has not been rolled back.
\<close>

definition add_migration ::
  "('d, 'g) store \<Rightarrow> 'd migration \<Rightarrow> duration \<Rightarrow> bool \<Rightarrow> 'g \<Rightarrow> error option \<times> 'g" where
  "add_migration st m dur dry_run g =
     (let (g', result_summary) = add_query st m dur g;
          tx = (if dry_run then g else g')
      in if nodes_created result_summary \<noteq> 1 \<and> relationships_created result_summary \<noteq> 1
         then (Some (ValueError
                 ''The migration record could not be created. Check the migration graph.''), g)
         else (None, tx))"

definition from_dict :: "row \<Rightarrow> 'd migration" where
  "from_dict r = (case r of (v, descr, t, src, cs) \<Rightarrow> Migration v descr t src cs)"

definition get_applied_migrations :: "('d, 'g) store \<Rightarrow> 'g \<Rightarrow> 'd migration list" where
  "get_applied_migrations st g = map from_dict (applied_query st g)"

text \<open>
  \<open>remove_migration\<close>: \<open>match_entry\<close> is the row of the first query (\<open>None\<close> when
  there is none) and says whether the entry has a successor; \<open>delete_query\<close> gives the
  row with \<open>deleted_count\<close>.
\<close>

definition remove_migration ::
  "('d, 'g) store \<Rightarrow> string \<Rightarrow> 'g \<Rightarrow> error option \<times> 'g" where
  "remove_migration st v g =
     (case match_entry st v g of
        None \<Rightarrow> (Some (ValueError (''Migration version '' @ v @ '' not found.'')), g)
      | Some has_next \<Rightarrow>
          (let g1 = (if has_next then relink_query st v g else g);
               (g2, summary) = delete_query st v g1
           in if summary \<noteq> Some 1
              then (Some (ValueError (''Failed to remove migration version '' @ v @ ''.'')), g)
              else (None, g2)))"

section \<open>executor.py\<close>

text \<open>
  What \<open>analyzer.analyze\<close> returns. The analysis itself is a parameter, the function
  \<open>analyzer\<close> of the executor, and \<open>local_migrations\<close> is what the loader returned.
\<close>

datatype invalid_version_status = DIFFERENT | MISSED_LOCALLY

record 'd analyzing_result =
  pending_migrations :: "'d migration list"
  invalid_versions :: "(string \<times> invalid_version_status) list"
  latest_applied_version :: "string option"

record ('d, 'g) executor =
  driver :: "('d, 'g) store"
  local_migrations :: "'d migration list"
  analyzer :: "'d migration list \<Rightarrow> 'd migration list \<Rightarrow> 'd analyzing_result"

text \<open>
  The calls the executor makes, in the order it makes them: the transaction on the
  migrated database (begin, commit, abort), the bodies, the callbacks and the calls of the
  DAO.
\<close>

datatype event =
    EvCreateBaseline
  | EvCreateConstraints
  | EvAddMigration string bool
  | EvRemoveMigration string
  | EvBegin
  | EvCommit
  | EvAbort
  | EvApply string
  | EvRollback string
  | EvOnApply string
  | EvOnRollback string

record ('d, 'g) world =
  target :: 'd
  schema :: 'g
  trace :: "event list"

definition emit :: "event \<Rightarrow> ('d, 'g) world \<Rightarrow> ('d, 'g) world" where
  "emit e w = w\<lparr>trace := trace w @ [e]\<rparr>"

definition analyze :: "('d, 'g) executor \<Rightarrow> ('d, 'g) world \<Rightarrow> 'd analyzing_result" where
  "analyze ex w =
     analyzer ex (local_migrations ex) (get_applied_migrations (driver ex) (schema w))"

text \<open>The \<open>enumerate\<close> loop with \<open>break\<close>: the index of the first entry of a version.\<close>

fun version_index :: "string \<Rightarrow> 'd migration list \<Rightarrow> nat option" where
  "version_index v [] = None"
| "version_index v (m # ms) =
     (if version m = v then Some 0 else map_option Suc (version_index v ms))"

definition migrations_to_apply ::
  "'d migration list \<Rightarrow> string option \<Rightarrow> error + 'd migration list" where
  "migrations_to_apply pending ver =
     (case ver of
        None \<Rightarrow> Inr pending
      | Some v \<Rightarrow>
          (case version_index v pending of
             None \<Rightarrow>
               Inl (ValueError (''Migration version '' @ v @ '' not found in pending migrations.''))
           | Some i \<Rightarrow> Inr (take (i + 1) pending)))"

definition dao_add_migration ::
  "('d, 'g) executor \<Rightarrow> 'd migration \<Rightarrow> duration \<Rightarrow> bool \<Rightarrow> ('d, 'g) world
     \<Rightarrow> error option \<times> ('d, 'g) world" where
  "dao_add_migration ex m dur dry_run w =
     (let w1 = emit (EvAddMigration (version m) dry_run) w;
          (r, g) = add_migration (driver ex) m dur dry_run (schema w1)
      in (r, w1\<lparr>schema := g\<rparr>))"

text \<open>
  One round of the loop of \<open>migrate\<close>: the dry run, the body and the callback in a
  transaction (an exception aborts it, a normal exit commits it), then the record.
\<close>

definition apply_one ::
  "('d, 'g) executor \<Rightarrow> ('d migration \<Rightarrow> error option) option \<Rightarrow> 'd migration
     \<Rightarrow> ('d, 'g) world \<Rightarrow> error option \<times> ('d, 'g) world" where
  "apply_one ex on_apply m w =
     (case dao_add_migration ex m Zero True w of
        (Some e, w0) \<Rightarrow> (Some e, w0)
      | (None, w0) \<Rightarrow>
          (let w1 = emit (EvApply (version m)) (emit EvBegin w0)
           in case apply_migration (run (driver ex)) m (target w1) of
                Inl e \<Rightarrow> (Some e, emit EvAbort w1)
              | Inr d \<Rightarrow>
                  (case on_apply of
                     None \<Rightarrow>
                       dao_add_migration ex m Measured False (emit EvCommit (w1\<lparr>target := d\<rparr>))
                   | Some cb \<Rightarrow>
                       (let w2 = emit (EvOnApply (version m)) w1
                        in case cb m of
                             Some e \<Rightarrow> (Some e, emit EvAbort w2)
                           | None \<Rightarrow>
                               dao_add_migration ex m Measured False
                                 (emit EvCommit (w2\<lparr>target := d\<rparr>))))))"

fun migrate_loop ::
  "('d, 'g) executor \<Rightarrow> ('d migration \<Rightarrow> error option) option \<Rightarrow> 'd migration list
     \<Rightarrow> ('d, 'g) world \<Rightarrow> error option \<times> ('d, 'g) world" where
  "migrate_loop ex on_apply [] w = (None, w)"
| "migrate_loop ex on_apply (m # ms) w =
     (case apply_one ex on_apply m w of
        (Some e, w') \<Rightarrow> (Some e, w')
      | (None, w') \<Rightarrow> migrate_loop ex on_apply ms w')"

definition ensure_baseline :: "('d, 'g) executor \<Rightarrow> ('d, 'g) world \<Rightarrow> ('d, 'g) world" where
  "ensure_baseline ex w =
     (let w1 = (emit EvCreateBaseline w)\<lparr>schema := create_baseline (driver ex) (schema w)\<rparr>
      in (emit EvCreateConstraints w1)\<lparr>schema := create_constraints (driver ex) (schema w1)\<rparr>)"

definition migrate ::
  "('d, 'g) executor \<Rightarrow> string option \<Rightarrow> ('d migration \<Rightarrow> error option) option
     \<Rightarrow> ('d, 'g) world \<Rightarrow> error option \<times> ('d, 'g) world" where
  "migrate ex ver on_apply w =
     (let analyzing_result = analyze ex w
      in if invalid_versions analyzing_result \<noteq> []
         then (Some (ValueError (''Errors were found during migration verification. '' @
                        ''Run the `analyze` command for more information.'')), w)
         else
           (let w1 = (if latest_applied_version analyzing_result = None
                         \<or> latest_applied_version analyzing_result = Some []
                      then ensure_baseline ex w else w)
            in case migrations_to_apply (pending_migrations analyzing_result) ver of
                 Inl e \<Rightarrow> (Some e, w1)
               | Inr selected \<Rightarrow> migrate_loop ex on_apply selected w1))"

definition migrations_to_rollback ::
  "'d migration list \<Rightarrow> string option \<Rightarrow> error + 'd migration list" where
  "migrations_to_rollback applied ver =
     (if applied = [] then Inl (ValueError ''No migrations found to rollback.'')
      else case ver of
             None \<Rightarrow> Inr [last applied]
           | Some v \<Rightarrow>
               (case version_index v applied of
                  None \<Rightarrow>
                    Inl (ValueError
                          (''Migration version '' @ v @ '' not found in applied migrations.''))
                | Some i \<Rightarrow> Inr (rev (drop (i + 1) applied))))"

text \<open>\<open>next((m for m in self.local_migrations if m.version == v), None)\<close>.\<close>

fun find_local :: "string \<Rightarrow> 'd migration list \<Rightarrow> 'd migration option" where
  "find_local v [] = None"
| "find_local v (m # ms) = (if version m = v then Some m else find_local v ms)"

text \<open>\<open>except NotImplementedError as e: raise ValueError(...)\<close>.\<close>

definition reraise :: "string \<Rightarrow> error \<Rightarrow> error" where
  "reraise v e =
     (case e of
        NotImplementedError msg \<Rightarrow>
          ValueError (''Migration V'' @ v @ '' does not support rollback: '' @ msg)
      | _ \<Rightarrow> e)"

text \<open>
  One round of the loop of \<open>rollback\<close>. The body, the callback and
  \<open>remove_migration\<close> are all inside the transaction on the migrated database: it commits
  after the removal, and an exception of any of the three aborts it.
\<close>

definition rollback_one ::
  "('d, 'g) executor \<Rightarrow> ('d migration \<Rightarrow> error option) option \<Rightarrow> 'd migration
     \<Rightarrow> ('d, 'g) world \<Rightarrow> error option \<times> ('d, 'g) world" where
  "rollback_one ex on_rollback m w =
     (case find_local (version m) (local_migrations ex) of
        None \<Rightarrow>
          (Some (ValueError (''Local migration V'' @ version m @ '' not found. '' @
                   ''Cannot perform rollback without local migration file.'')), w)
      | Some local_migration \<Rightarrow>
          (let w1 = emit (EvRollback (version m)) (emit EvBegin w)
           in case rollback_migration (run (driver ex)) local_migration (target w1) of
                Inl e \<Rightarrow> (Some (reraise (version m) e), emit EvAbort w1)
              | Inr d \<Rightarrow>
                  (let w2 = (case on_rollback of
                               None \<Rightarrow> w1
                             | Some cb \<Rightarrow> emit (EvOnRollback (version m)) w1)
                   in case (case on_rollback of None \<Rightarrow> None | Some cb \<Rightarrow> cb local_migration) of
                        Some e \<Rightarrow> (Some (reraise (version m) e), emit EvAbort w2)
                      | None \<Rightarrow>
                          (let w3 = emit (EvRemoveMigration (version m)) w2
                           in case remove_migration (driver ex) (version m) (schema w3) of
                                (Some e, g) \<Rightarrow>
                                  (Some (reraise (version m) e), emit EvAbort (w3\<lparr>schema := g\<rparr>))
                              | (None, g) \<Rightarrow>
                                  (None, emit EvCommit (w3\<lparr>schema := g, target := d\<rparr>))))))"

fun rollback_loop ::
  "('d, 'g) executor \<Rightarrow> ('d migration \<Rightarrow> error option) option \<Rightarrow> 'd migration list
     \<Rightarrow> ('d, 'g) world \<Rightarrow> error option \<times> ('d, 'g) world" where
  "rollback_loop ex on_rollback [] w = (None, w)"
| "rollback_loop ex on_rollback (m # ms) w =
     (case rollback_one ex on_rollback m w of
        (Some e, w') \<Rightarrow> (Some e, w')
      | (None, w') \<Rightarrow> rollback_loop ex on_rollback ms w')"

definition rollback ::
  "('d, 'g) executor \<Rightarrow> string option \<Rightarrow> ('d migration \<Rightarrow> error option) option
     \<Rightarrow> ('d, 'g) world \<Rightarrow> error option \<times> ('d, 'g) world" where
  "rollback ex ver on_rollback w =
     (case migrations_to_rollback (get_applied_migrations (driver ex) (schema w)) ver of
        Inl e \<Rightarrow> (Some e, w)
      | Inr selected \<Rightarrow> rollback_loop ex on_rollback selected w)"

text \<open>The bodies run and the records written, read off a trace.\<close>

fun applied_versions :: "event list \<Rightarrow> string list" where
  "applied_versions [] = []"
| "applied_versions (EvApply v # es) = v # applied_versions es"
| "applied_versions (e # es) = applied_versions es"

fun recorded_versions :: "event list \<Rightarrow> string list" where
  "recorded_versions [] = []"
| "recorded_versions (EvAddMigration v False # es) = v # recorded_versions es"
| "recorded_versions (e # es) = recorded_versions es"

text \<open>The calls of one round of \<open>migrate\<close> in which nothing raises.\<close>

definition apply_events ::
  "('d migration \<Rightarrow> error option) option \<Rightarrow> 'd migration \<Rightarrow> event list" where
  "apply_events on_apply m =
     [EvAddMigration (version m) True, EvBegin, EvApply (version m)] @
     (case on_apply of None \<Rightarrow> [] | Some cb \<Rightarrow> [EvOnApply (version m)]) @
     [EvCommit, EvAddMigration (version m) False]"

section \<open>A store and migrations for concrete runs\<close>

text \<open>
  The chain is the list of its versions with the baseline first; the migrated database
  is the list of the statements run on it.
\<close>

definition list_store :: "(string list, string list) store" where
  "list_store =
     \<lparr> run = (\<lambda>st d. Inr (d @ [st])),
       baseline_exists = (\<lambda>g. g \<noteq> []),
       create_baseline_node = (\<lambda>g. g @ [''BASELINE'']),
       create_constraint = (\<lambda>g. g),
       add_query = (\<lambda>m dur g.
          if g = [] then (g, \<lparr>nodes_created = 0, relationships_created = 0\<rparr>)
          else (g @ [version m], \<lparr>nodes_created = 1, relationships_created = 1\<rparr>)),
       applied_query = (\<lambda>g. map (\<lambda>v. (v, [], ''CYPHER'', None, None)) (tl g)),
       match_entry = (\<lambda>v g. if List.member (tl g) v then Some (last g \<noteq> v) else None),
       relink_query = (\<lambda>v g. g),
       delete_query = (\<lambda>v g. (take 1 g @ removeAll v (tl g), Some 1)) \<rparr>"

definition script :: "string \<Rightarrow> string \<Rightarrow> string list migration" where
  "script v q = CypherMigration v ''demo'' None q"

definition fresh :: "(string list, string list) world" where
  "fresh = \<lparr> target = [], schema = [], trace = [] \<rparr>"

definition proc :: "string \<Rightarrow> string list migration" where
  "proc v =
     PythonMigration v ''demo'' None
       (\<lambda>d. Inr (d @ [''apply '' @ v])) (Some (\<lambda>d. Inr (d @ [''undo '' @ v])))"

definition proc_forward_only :: "string \<Rightarrow> string list migration" where
  "proc_forward_only v =
     PythonMigration v ''demo'' None (\<lambda>d. Inr (d @ [''apply '' @ v])) None"

text \<open>
  An executor on a database where nothing is applied yet: every local migration is
  pending.
\<close>

definition fresh_executor ::
  "string list migration list \<Rightarrow> (string list, string list) executor" where
  "fresh_executor local =
     \<lparr> driver = list_store, local_migrations = local,
       analyzer = (\<lambda>local applied.
          \<lparr> pending_migrations = local, invalid_versions = [],
            latest_applied_version = None \<rparr>) \<rparr>"

section \<open>Facts about strings and the CRC\<close>

lemma split_str_not_Nil: "split_str c s \<noteq> []"
  by (induction s) (auto split: list.splits)

lemma split_str_no_sep: "c \<notin> set t \<Longrightarrow> split_str c t = [t]"
  by (induction t) auto

lemma split_str_append: "split_str c (p @ c # t) = split_str c p @ split_str c t"
  by (induction p) (auto split: list.splits simp: split_str_not_Nil)

lemma startswith_append: "startswith xs m \<Longrightarrow> startswith (xs @ ys) m"
  unfolding startswith_def
  by (metis append_eq_conv_conj append.assoc)

lemma contains_append: "contains m xs \<Longrightarrow> contains m (xs @ ys)"
proof (induction xs)
  case Nil
  then show ?case by (cases ys) (auto simp: startswith_def)
next
  case (Cons x xs)
  then show ?case using startswith_append [of "x # xs" m ys] by auto
qed

lemma crc32_Nil: "crc32 [] v = v"
  by (simp add: crc32_def xor.assoc)

lemma crc32_append: "crc32 (a @ b) v = crc32 b (crc32 a v)"
  by (simp add: crc32_def xor.assoc)

lemma crc_loop_concat:
  "crc_loop c sts =
     (if sts = [] then c
      else Some (crc32 (concat sts) (case c of None \<Rightarrow> 0 | Some v \<Rightarrow> v)))"
proof (induction sts arbitrary: c)
  case Nil
  then show ?case by simp
next
  case (Cons st sts)
  show ?case
    by (cases c) (simp_all add: Cons.IH crc32_append crc32_Nil)
qed

lemma checksum_of_concat:
  "checksum_of sts =
     (if sts = [] \<or> crc32 (concat sts) 0 = 0 then None
      else Some (str_nat (unat (crc32 (concat sts) 0))))"
  by (simp add: checksum_of_def crc_loop_concat)

text \<open>The check value of CRC-32.\<close>

lemma crc32_check_value: "crc32 ''123456789'' 0 = 0xCBF43926"
  by code_simp

lemma crc_aaa: "crc32 ''aaa'' 0 = 0xF007732D"
  by code_simp

lemma butlast_split_trailing:
  assumes "c \<notin> set t"
  shows "butlast (split_str c (p @ c # t)) = split_str c p"
  by (simp add: split_str_append split_str_no_sep [OF assms])

lemma CypherMigration_statements:
  "statements_of (CypherMigration v descr src q) = clean (fst (parse_statements q))"
  by (simp add: statements_of_def CypherMigration_def Let_def split: prod.splits)

lemma CypherMigration_checksum:
  "checksum (CypherMigration v descr src q) = checksum_of (clean (fst (parse_statements q)))"
  by (simp add: CypherMigration_def Let_def split: prod.splits)

section \<open>Scripts without section markers\<close>

text \<open>
  Claim C10. A script with neither marker is split at every \<open>;\<close> and the last segment
  is dropped. So whatever follows the last \<open>;\<close> (a final statement with no
  semicolon after it) is in neither the statements that are run nor the checksum: the
  migration has the statements and the checksum of the script cut after its last \<open>;\<close>.
\<close>

theorem parse_statements_without_markers:
  assumes "\<not> contains UP_MARK q" and "\<not> contains DOWN_MARK q"
  shows "parse_statements q = (butlast (split_str CHR '';'' q), []) \<and>
         (\<forall>p t. q = p @ '';'' @ t \<and> CHR '';'' \<notin> set t \<longrightarrow>
            statements_of (CypherMigration v descr src q :: 'd migration) =
              statements_of (CypherMigration v descr src (p @ '';'') :: 'd migration) \<and>
            statements_of (CypherMigration v descr src q :: 'd migration) =
              clean (split_str CHR '';'' p) \<and>
            checksum (CypherMigration v descr src q :: 'd migration) =
              checksum (CypherMigration v descr src (p @ '';'') :: 'd migration))"
proof -
  have whole: "parse_statements q = (butlast (split_str CHR '';'' q), [])"
    using assms by (simp add: parse_statements_def)
  have tail: "fst (parse_statements q) = split_str CHR '';'' p \<and>
              fst (parse_statements (p @ '';'')) = split_str CHR '';'' p"
    if q: "q = p @ '';'' @ t" and t: "CHR '';'' \<notin> set t" for p t
  proof -
    have "\<not> contains UP_MARK (p @ '';'')" "\<not> contains DOWN_MARK (p @ '';'')"
      using assms contains_append [of _ "p @ '';''" t] by (auto simp: q)
    then have "parse_statements (p @ '';'') = (butlast (split_str CHR '';'' (p @ '';'')), [])"
      by (simp add: parse_statements_def)
    moreover have "butlast (split_str CHR '';'' (p @ '';'')) = split_str CHR '';'' p"
      using butlast_split_trailing [of "CHR '';''" "[]" p] by simp
    moreover have "butlast (split_str CHR '';'' q) = split_str CHR '';'' p"
      using butlast_split_trailing [OF t, of p] by (simp add: q)
    ultimately show ?thesis by (simp add: whole)
  qed
  show ?thesis
    using whole tail by (simp add: CypherMigration_statements CypherMigration_checksum)
qed

theorem parse_statements_without_markers_witness:
  "\<not> contains UP_MARK ''A;B'' \<and> \<not> contains DOWN_MARK ''A;B'' \<and>
   parse_statements ''A;B'' = ([''A''], []) \<and>
   statements_of (CypherMigration ''0001'' ''d'' None ''A;B'' :: unit migration) = [''A''] \<and>
   checksum (CypherMigration ''0001'' ''d'' None ''A;B'' :: unit migration) =
     checksum (CypherMigration ''0001'' ''d'' None ''A;'' :: unit migration)"
proof -
  have up: "\<not> contains UP_MARK ''A;B''" by code_simp
  have down: "\<not> contains DOWN_MARK ''A;B''" by code_simp
  have sp: "butlast (split_str CHR '';'' ''A;B'') = [''A'']" by simp
  have cl: "clean (split_str CHR '';'' ''A'') = [''A'']" by code_simp
  have q: "''A;B'' = ''A'' @ '';'' @ ''B'' \<and> CHR '';'' \<notin> set ''B''" by simp
  note whole = parse_statements_without_markers [OF up down, THEN conjunct1]
  note tail = parse_statements_without_markers
    [OF up down, THEN conjunct2, rule_format, OF q, of "''0001''" "''d''" None]
  have "parse_statements ''A;B'' = ([''A''], [])"
    using whole by (simp only: sp)
  moreover have
    "statements_of (CypherMigration ''0001'' ''d'' None ''A;B'' :: unit migration) = [''A'']"
    by (simp only: tail [where ?'d = unit, THEN conjunct2, THEN conjunct1] cl)
  moreover have
    "checksum (CypherMigration ''0001'' ''d'' None ''A;B'' :: unit migration) =
       checksum (CypherMigration ''0001'' ''d'' None ''A;'' :: unit migration)"
    using tail [where ?'d = unit] by simp
  ultimately show ?thesis using up down by simp
qed

section \<open>Checksums\<close>

lemma crc_ab: "crc32 ''ab'' 0 = 0x9E83486D"
  by code_simp

lemma crc_ba: "crc32 ''ba'' 0 = 0x2CA74A14"
  by code_simp

lemma clean_a_aa: "clean (fst (parse_statements ''a;aa;'')) = [''a'', ''aa'']"
  by code_simp

lemma clean_aa_a: "clean (fst (parse_statements ''aa;a;'')) = [''aa'', ''a'']"
  by code_simp

lemma clean_a_b: "clean (fst (parse_statements ''a;b;'')) = [''a'', ''b'']"
  by code_simp

lemma clean_b_a: "clean (fst (parse_statements ''b;a;'')) = [''b'', ''a'']"
  by code_simp

text \<open>
  Claim C8, as stated: swapping two distinct statements of a script changes the checksum.
  It fails for the statements \<open>a\<close> and \<open>aa\<close>: both orders feed the bytes \<open>aaa\<close>
  to the CRC.
\<close>

theorem checksum_swap_counterexample:
  "statements_of (CypherMigration ''0001'' ''d'' None ''a;aa;'' :: unit migration) = [''a'', ''aa''] \<and>
   statements_of (CypherMigration ''0001'' ''d'' None ''aa;a;'' :: unit migration) = [''aa'', ''a''] \<and>
   checksum (CypherMigration ''0001'' ''d'' None ''a;aa;'' :: unit migration) = Some ''4027020077'' \<and>
   checksum (CypherMigration ''0001'' ''d'' None ''aa;a;'' :: unit migration) = Some ''4027020077''"
  by (simp add: CypherMigration_statements CypherMigration_checksum clean_a_aa clean_aa_a
        checksum_of_concat crc_aaa str_nat.simps)

text \<open>
  Claim C8, amended. The checksum is the CRC-32, in decimal, of the statements
  concatenated in order (none when there is no statement or the CRC is 0). So equal
  statement sequences have equal checksums, and a swap changes the checksum only when it
  changes the concatenated text, as for \<open>a\<close> and \<open>b\<close>.
\<close>

theorem checksum_is_crc32_of_statement_stream:
  "checksum (CypherMigration v descr src q :: 'd migration) =
     (let sts = statements_of (CypherMigration v descr src q :: 'd migration);
          c = crc32 (concat sts) 0
      in if sts = [] \<or> c = 0 then None else Some (str_nat (unat c))) \<and>
   checksum (CypherMigration ''0001'' ''d'' None ''a;b;'' :: unit migration) = Some ''2659403885'' \<and>
   checksum (CypherMigration ''0001'' ''d'' None ''b;a;'' :: unit migration) = Some ''749160980''"
  by (simp add: CypherMigration_statements CypherMigration_checksum clean_a_b clean_b_a
        checksum_of_concat crc_ab crc_ba str_nat.simps Let_def)

section \<open>Comparing versions\<close>

lemma tuple_lt_lexord: "tuple_lt xs ys \<longleftrightarrow> (xs, ys) \<in> lexord {(a, b). a < b}"
  by (induction xs ys rule: tuple_lt.induct) auto

lemma pr1: "parse_release ''1'' = Some [1]" by code_simp
lemma pr10: "parse_release ''1.0'' = Some [1, 0]" by code_simp
lemma pr101: "Version ''1.0.1'' = Some [1, 0, 1]" by code_simp
lemma v1: "Version ''1'' = Some [1]" by code_simp
lemma v10: "Version ''1.0'' = Some [1]" by code_simp
lemma v0200: "Version ''0.20.0'' = Some [0, 20]" by code_simp
lemma v030: "Version ''0.3.0'' = Some [0, 3]" by code_simp
lemma v0001: "Version ''0001'' = Some [1]" by code_simp


lemma version_Migration [simp]: "version (Migration v descr t src cs) = v"
  by (simp add: Migration_def)

text \<open>
  Claim C7, as stated: keys are equal only when their integer sequences are equal, with no
  zero padding, so that \<open>1\<close> and \<open>1.0\<close> differ. In the code neither is below the
  other and their keys are equal.
\<close>

theorem version_trailing_zero_counterexample:
  "parse_release ''1'' = Some [1] \<and> parse_release ''1.0'' = Some [1, 0] \<and>
   migration_lt (Migration ''1'' ''d'' ''CYPHER'' None None :: unit migration)
                (Migration ''1.0'' ''d'' ''CYPHER'' None None :: unit migration) = Some False \<and>
   migration_lt (Migration ''1.0'' ''d'' ''CYPHER'' None None :: unit migration)
                (Migration ''1'' ''d'' ''CYPHER'' None None :: unit migration) = Some False \<and>
   Version ''1'' = Version ''1.0''"
  by (simp add: migration_lt_def pr1 pr10 v1 v10)

text \<open>
  Claim C7, amended. Versions compare as their integer sequences with the trailing zeros
  removed: element by element as numbers, and a proper prefix is below its extensions.
  So \<open>0.20.0\<close> is above \<open>0.3.0\<close> and \<open>1.0.1\<close> is above \<open>1\<close>.
\<close>

theorem migration_lt_numeric:
  "migration_lt a b =
     (case (parse_release (version a), parse_release (version b)) of
        (Some ra, Some rb) \<Rightarrow>
          Some ((rev (dropWhile (\<lambda>x. x = 0) (rev ra)), rev (dropWhile (\<lambda>x. x = 0) (rev rb)))
                  \<in> lexord {(x, y). x < y})
      | _ \<Rightarrow> None) \<and>
   migration_lt (Migration ''0.3.0'' ''d'' ''CYPHER'' None None :: unit migration)
                (Migration ''0.20.0'' ''d'' ''CYPHER'' None None :: unit migration) = Some True \<and>
   migration_lt (Migration ''1'' ''d'' ''CYPHER'' None None :: unit migration)
                (Migration ''1.0.1'' ''d'' ''CYPHER'' None None :: unit migration) = Some True"
proof -
  have "migration_lt a b =
     (case (parse_release (version a), parse_release (version b)) of
        (Some ra, Some rb) \<Rightarrow>
          Some ((rev (dropWhile (\<lambda>x. x = 0) (rev ra)), rev (dropWhile (\<lambda>x. x = 0) (rev rb)))
                  \<in> lexord {(x, y). x < y})
      | _ \<Rightarrow> None)"
    by (simp add: migration_lt_def Version_def cmpkey_def tuple_lt_lexord
          split: option.splits)
  then show ?thesis
    by (simp add: migration_lt_def v0200 v030 v1 pr101)
qed

section \<open>The ledger append\<close>



section \<open>Migrating\<close>

text \<open>
  Claim C2. When the analysis holds an invalid version, \<open>migrate\<close> raises the
  \<open>ValueError\<close> of the verification and the world is as before: no baseline, no
  constraint, no body, no record, not even a call.
\<close>

theorem migrate_blocked_by_invalid_versions:
  assumes "invalid_versions (analyze ex w) \<noteq> []"
  shows "migrate ex ver on_apply w =
           (Some (ValueError (''Errors were found during migration verification. '' @
                     ''Run the `analyze` command for more information.'')), w)"
  using assms by (simp add: migrate_def Let_def)

theorem migrate_blocked_by_invalid_versions_witness:
  "invalid_versions
     (analyze \<lparr> driver = list_store, local_migrations = [script ''0001'' ''RETURN 2;''],
                analyzer = (\<lambda>local applied.
                   \<lparr> pending_migrations = [], invalid_versions = [(''0001'', DIFFERENT)],
                     latest_applied_version = Some ''0001'' \<rparr>) \<rparr>
              \<lparr> target = [''RETURN 1''], schema = [''BASELINE'', ''0001''], trace = [] \<rparr>) \<noteq> [] \<and>
   migrate \<lparr> driver = list_store, local_migrations = [script ''0001'' ''RETURN 2;''],
             analyzer = (\<lambda>local applied.
                \<lparr> pending_migrations = [], invalid_versions = [(''0001'', DIFFERENT)],
                  latest_applied_version = Some ''0001'' \<rparr>) \<rparr>
           None None
           \<lparr> target = [''RETURN 1''], schema = [''BASELINE'', ''0001''], trace = [] \<rparr>
   = (Some (ValueError (''Errors were found during migration verification. '' @
                     ''Run the `analyze` command for more information.'')),
      \<lparr> target = [''RETURN 1''], schema = [''BASELINE'', ''0001''], trace = [] \<rparr>)"
proof -
  let ?ex = "\<lparr> driver = list_store, local_migrations = [script ''0001'' ''RETURN 2;''],
                analyzer = (\<lambda>local applied.
                   \<lparr> pending_migrations = [], invalid_versions = [(''0001'', DIFFERENT)],
                     latest_applied_version = Some ''0001'' \<rparr>) \<rparr>"
  let ?w = "\<lparr> target = [''RETURN 1''], schema = [''BASELINE'', ''0001''], trace = [] \<rparr>
              :: (string list, string list) world"
  have h: "invalid_versions (analyze ?ex ?w) \<noteq> []"
    by (simp add: analyze_def)
  from migrate_blocked_by_invalid_versions [OF h, of None None] h
  show ?thesis by simp
qed

section \<open>Facts about the loops of the executor\<close>

lemma version_index_None:
  "version_index v ms = None \<longleftrightarrow> v \<notin> set (map version ms)"
  by (induction ms) auto

lemma version_index_Some:
  "v \<in> set (map version ms) \<Longrightarrow>
     version_index v ms = Some (length (takeWhile (\<lambda>m. version m \<noteq> v) ms))"
  by (induction ms) auto

lemma take_Suc_takeWhile:
  "take (Suc (length (takeWhile P xs))) xs = takeWhile P xs @ take 1 (dropWhile P xs)"
  by (induction xs) auto

lemma drop_Suc_takeWhile:
  "drop (Suc (length (takeWhile P xs))) xs = tl (dropWhile P xs)"
  by (induction xs) auto

lemma migrations_to_rollback_cases:
  "migrations_to_rollback applied ver =
     (if applied = [] then Inl (ValueError ''No migrations found to rollback.'')
      else case ver of
             None \<Rightarrow> Inr [last applied]
           | Some v \<Rightarrow>
               if v \<in> set (map version applied)
               then Inr (rev (tl (dropWhile (\<lambda>m. version m \<noteq> v) applied)))
               else Inl (ValueError
                          (''Migration version '' @ v @ '' not found in applied migrations.'')))"
proof (cases ver)
  case None
  then show ?thesis by (simp add: migrations_to_rollback_def)
next
  case (Some v)
  show ?thesis
  proof (cases "v \<in> set (map version applied)")
    case True
    from version_index_Some [OF True] show ?thesis
      by (simp add: migrations_to_rollback_def Some True drop_Suc_takeWhile del: set_map)
  next
    case False
    then have "version_index v applied = None" using version_index_None [of v applied] by blast
    then show ?thesis using False by (simp add: migrations_to_rollback_def Some)
  qed
qed




lemma trace_emit [simp]: "trace (emit e w) = trace w @ [e]"
  and target_emit [simp]: "target (emit e w) = target w"
  and schema_emit [simp]: "schema (emit e w) = schema w"
  by (simp_all add: emit_def)

lemma dao_add_migration_trace:
  "dao_add_migration ex m dur dry w = (r, w') \<Longrightarrow>
     trace w' = trace w @ [EvAddMigration (version m) dry] \<and> target w' = target w"
  by (auto simp: dao_add_migration_def Let_def split: prod.splits)

lemma apply_one_ok:
  assumes "apply_one ex on_apply m w = (None, w')"
  shows "trace w' = trace w @ apply_events on_apply m"
  using assms
  by (auto simp: apply_one_def apply_events_def Let_def
      split: prod.splits option.splits sum.splits
      dest!: dao_add_migration_trace)

lemma migrate_loop_ok:
  "migrate_loop ex on_apply ms w = (None, w') \<Longrightarrow>
     trace w' = trace w @ concat (map (apply_events on_apply) ms)"
proof (induction ms arbitrary: w)
  case Nil
  then show ?case by simp
next
  case (Cons m ms)
  from Cons.prems obtain w1 where
    one: "apply_one ex on_apply m w = (None, w1)" and
    rest: "migrate_loop ex on_apply ms w1 = (None, w')"
    by (auto split: prod.splits option.splits)
  from Cons.IH [OF rest] apply_one_ok [OF one] show ?case by simp
qed

lemma applied_versions_append:
  "applied_versions (xs @ ys) = applied_versions xs @ applied_versions ys"
  by (induction xs rule: applied_versions.induct) auto

lemma recorded_versions_append:
  "recorded_versions (xs @ ys) = recorded_versions xs @ recorded_versions ys"
  by (induction xs rule: recorded_versions.induct) auto

lemma applied_versions_apply_events:
  "applied_versions (concat (map (apply_events cb) ms)) = map version ms"
  by (induction ms) (auto simp: apply_events_def applied_versions_append split: option.splits)

lemma recorded_versions_apply_events:
  "recorded_versions (concat (map (apply_events cb) ms)) = map version ms"
  by (induction ms) (auto simp: apply_events_def recorded_versions_append split: option.splits)

lemma ensure_baseline_quiet:
  "applied_versions (trace (ensure_baseline ex w)) = applied_versions (trace w) \<and>
   recorded_versions (trace (ensure_baseline ex w)) = recorded_versions (trace w) \<and>
   target (ensure_baseline ex w) = target w"
  by (simp add: ensure_baseline_def Let_def applied_versions_append recorded_versions_append)

lemma migrations_to_apply_cases:
  "migrations_to_apply pending ver =
     (case ver of
        None \<Rightarrow> Inr pending
      | Some v \<Rightarrow>
          if v \<in> set (map version pending)
          then Inr (takeWhile (\<lambda>m. version m \<noteq> v) pending @
                    take 1 (dropWhile (\<lambda>m. version m \<noteq> v) pending))
          else Inl (ValueError
                     (''Migration version '' @ v @ '' not found in pending migrations.'')))"
proof (cases ver)
  case None
  then show ?thesis by (simp add: migrations_to_apply_def)
next
  case (Some v)
  show ?thesis
  proof (cases "v \<in> set (map version pending)")
    case True
    from version_index_Some [OF True] show ?thesis
      by (simp add: migrations_to_apply_def Some True take_Suc_takeWhile del: set_map)
  next
    case False
    then have "version_index v pending = None"
      using version_index_None [of v pending] by blast
    then show ?thesis using False by (simp add: migrations_to_apply_def Some)
  qed
qed

lemma map_version_selected:
  "v \<in> set (map version pending) \<Longrightarrow>
   map version (takeWhile (\<lambda>m. version m \<noteq> v) pending @
                take 1 (dropWhile (\<lambda>m. version m \<noteq> v) pending)) =
   map version (takeWhile (\<lambda>m. version m \<noteq> v) pending) @ [v]"
  by (induction pending) auto

lemma migrate_loop_append:
  "migrate_loop ex cb (xs @ ys) w =
     (case migrate_loop ex cb xs w of
        (Some e, w') \<Rightarrow> (Some e, w')
      | (None, w') \<Rightarrow> migrate_loop ex cb ys w')"
  by (induction xs arbitrary: w) (auto split: prod.splits option.splits)

lemma rollback_loop_append:
  "rollback_loop ex cb (xs @ ys) w =
     (case rollback_loop ex cb xs w of
        (Some e, w') \<Rightarrow> (Some e, w')
      | (None, w') \<Rightarrow> rollback_loop ex cb ys w')"
  by (induction xs arbitrary: w) (auto split: prod.splits option.splits)

lemma add_migration_dry_run:
  "add_migration st m dur True g = (r, g') \<Longrightarrow> g' = g"
  by (auto simp: add_migration_def Let_def split: prod.splits if_splits)

lemma dao_add_migration_dry_run:
  assumes "fst (dao_add_migration ex m dur True w) = None"
  shows "dao_add_migration ex m dur True w =
           (None, w\<lparr>trace := trace w @ [EvAddMigration (version m) True]\<rparr>)"
proof -
  obtain r g where a: "add_migration (driver ex) m dur True (schema w) = (r, g)"
    by (cases "add_migration (driver ex) m dur True (schema w)")
  from add_migration_dry_run [OF a] have "g = schema w" .
  with a assms show ?thesis
    by (simp add: dao_add_migration_def Let_def emit_def)
qed

lemma remove_migration_failed:
  "remove_migration st v g = (Some e, g') \<Longrightarrow> g' = g"
  by (auto simp: remove_migration_def Let_def split: option.splits prod.splits if_splits)

lemma version_proc [simp]: "version (proc v) = v"
  and version_proc_forward_only [simp]: "version (proc_forward_only v) = v"
  by (simp_all add: proc_def proc_forward_only_def PythonMigration_def)

section \<open>Selecting and applying pending migrations\<close>

text \<open>
  Claim C4. With no invalid version, \<open>migrate\<close> with a target version among the pending
  ones runs and records, in the order of the pending list, exactly the pending migrations up
  to and including the first of that version; with a target version that is not pending it
  raises the \<open>ValueError\<close> "not found in pending migrations" and no body runs, no record
  is written and the migrated database is as before; with no target version it runs and
  records all pending migrations. (What is run and recorded is stated for a call that
  returns without an exception.)
\<close>

theorem migrate_applies_prefix:
  assumes "invalid_versions (analyze ex w) = []"
      and "pending_migrations (analyze ex w) = pending"
      and "migrate ex ver on_apply w = (r, w')"
  shows "case ver of
           None \<Rightarrow>
             r = None \<longrightarrow>
               applied_versions (trace w') = applied_versions (trace w) @ map version pending \<and>
               recorded_versions (trace w') = recorded_versions (trace w) @ map version pending
         | Some v \<Rightarrow>
             if v \<in> set (map version pending)
             then r = None \<longrightarrow>
                    applied_versions (trace w') =
                      applied_versions (trace w) @
                      map version (takeWhile (\<lambda>m. version m \<noteq> v) pending) @ [v] \<and>
                    recorded_versions (trace w') =
                      recorded_versions (trace w) @
                      map version (takeWhile (\<lambda>m. version m \<noteq> v) pending) @ [v]
             else r = Some (ValueError
                        (''Migration version '' @ v @ '' not found in pending migrations.'')) \<and>
                  applied_versions (trace w') = applied_versions (trace w) \<and>
                  recorded_versions (trace w') = recorded_versions (trace w) \<and>
                  target w' = target w"
proof -
  define w1 where
    "w1 = (if latest_applied_version (analyze ex w) = None
              \<or> latest_applied_version (analyze ex w) = Some []
           then ensure_baseline ex w else w)"
  have quiet: "applied_versions (trace w1) = applied_versions (trace w)"
              "recorded_versions (trace w1) = recorded_versions (trace w)"
              "target w1 = target w"
    unfolding w1_def by (simp_all add: ensure_baseline_quiet)
  have "migrate ex ver on_apply w =
          (case migrations_to_apply pending ver of
             Inl e \<Rightarrow> (Some e, w1)
           | Inr selected \<Rightarrow> migrate_loop ex on_apply selected w1)"
    unfolding w1_def by (simp add: migrate_def Let_def assms(1,2))
  then have run: "(r, w') = (case migrations_to_apply pending ver of
                          Inl e \<Rightarrow> (Some e, w1)
                        | Inr selected \<Rightarrow> migrate_loop ex on_apply selected w1)"
    by (simp only: assms(3))
  have loop: "applied_versions (trace w') = applied_versions (trace w) @ map version sel \<and>
              recorded_versions (trace w') = recorded_versions (trace w) @ map version sel"
    if "migrate_loop ex on_apply sel w1 = (None, w')" for sel
    using migrate_loop_ok [OF that] quiet
    by (simp add: applied_versions_append recorded_versions_append
          applied_versions_apply_events recorded_versions_apply_events)
  show ?thesis
  proof (cases ver)
    case None
    then show ?thesis using run loop [of pending]
      by (auto simp: migrations_to_apply_cases)
  next
    case (Some v)
    show ?thesis
    proof (cases "v \<in> set (map version pending)")
      case True
      let ?sel = "takeWhile (\<lambda>m. version m \<noteq> v) pending @
                  take 1 (dropWhile (\<lambda>m. version m \<noteq> v) pending)"
      have "(r, w') = migrate_loop ex on_apply ?sel w1"
        using run True by (simp add: migrations_to_apply_cases Some del: set_map)
      then have "r = None \<Longrightarrow> migrate_loop ex on_apply ?sel w1 = (None, w')"
        by simp
      from loop [OF this] map_version_selected [OF True] show ?thesis
        using True by (simp add: Some del: set_map)
    next
      case False
      then show ?thesis using run quiet
        by (simp add: migrations_to_apply_cases Some del: set_map)
    qed
  qed
qed

theorem migrate_applies_prefix_witness:
  "invalid_versions
     (analyze (fresh_executor [proc ''0001'', proc ''0002'', proc ''0003'']) fresh) = [] \<and>
   migrate (fresh_executor [proc ''0001'', proc ''0002'', proc ''0003''])
     (Some ''0002'') None fresh =
     (None, \<lparr> target = [''apply 0001'', ''apply 0002''],
              schema = [''BASELINE'', ''0001'', ''0002''],
              trace = [EvCreateBaseline, EvCreateConstraints,
                       EvAddMigration ''0001'' True, EvBegin, EvApply ''0001'', EvCommit,
                       EvAddMigration ''0001'' False,
                       EvAddMigration ''0002'' True, EvBegin, EvApply ''0002'', EvCommit,
                       EvAddMigration ''0002'' False] \<rparr>) \<and>
   applied_versions
     [EvCreateBaseline, EvCreateConstraints,
      EvAddMigration ''0001'' True, EvBegin, EvApply ''0001'', EvCommit,
      EvAddMigration ''0001'' False,
      EvAddMigration ''0002'' True, EvBegin, EvApply ''0002'', EvCommit,
      EvAddMigration ''0002'' False] = [''0001'', ''0002'']"
proof -
  let ?ex = "fresh_executor [proc ''0001'', proc ''0002'', proc ''0003'']"
  have inv: "invalid_versions (analyze ?ex fresh) = []"
    by (simp add: analyze_def fresh_executor_def)
  have pend: "pending_migrations (analyze ?ex fresh) = [proc ''0001'', proc ''0002'', proc ''0003'']"
    by (simp add: analyze_def fresh_executor_def)
  have run: "migrate ?ex (Some ''0002'') None fresh =
     (None, \<lparr> target = [''apply 0001'', ''apply 0002''],
              schema = [''BASELINE'', ''0001'', ''0002''],
              trace = [EvCreateBaseline, EvCreateConstraints,
                       EvAddMigration ''0001'' True, EvBegin, EvApply ''0001'', EvCommit,
                       EvAddMigration ''0001'' False,
                       EvAddMigration ''0002'' True, EvBegin, EvApply ''0002'', EvCommit,
                       EvAddMigration ''0002'' False] \<rparr>)"
    by code_simp
  from migrate_applies_prefix [OF inv pend run] inv run show ?thesis
    by (simp add: fresh_def)
qed

text \<open>
  Claim C6. In a batch applied with a callback, when the earlier migrations have been
  applied and the callback raises for the next one, the loop ends with that exception: the
  transaction of that migration is aborted, so the migrated database and the ledger are
  what the earlier migrations left, no record is written for it, and nothing is called
  for the migrations after it.
\<close>

theorem on_apply_failure_aborts:
  assumes "migrate_loop ex (Some cb) pre w = (None, w1)"
      and "fst (dao_add_migration ex m Zero True w1) = None"
      and "apply_migration (run (driver ex)) m (target w1) = Inr d"
      and "cb m = Some e"
  shows "migrate_loop ex (Some cb) (pre @ m # post) w =
           (Some e, w1\<lparr>trace := trace w1 @
              [EvAddMigration (version m) True, EvBegin, EvApply (version m),
               EvOnApply (version m), EvAbort]\<rparr>)"
proof -
  have "apply_one ex (Some cb) m w1 =
          (Some e, w1\<lparr>trace := trace w1 @
              [EvAddMigration (version m) True, EvBegin, EvApply (version m),
               EvOnApply (version m), EvAbort]\<rparr>)"
    using assms(3,4)
    by (simp add: apply_one_def dao_add_migration_dry_run [OF assms(2)] Let_def emit_def)
  then show ?thesis
    by (simp add: migrate_loop_append assms(1))
qed

theorem on_apply_failure_aborts_witness:
  "migrate_loop (fresh_executor [proc ''0001'', proc ''0002'', proc ''0003''])
     (Some (\<lambda>m. if version m = ''0002'' then Some (OtherError ''Test exception'') else None))
     ([proc ''0001''] @ proc ''0002'' # [proc ''0003''])
     \<lparr> target = [], schema = [''BASELINE''], trace = [] \<rparr> =
   (Some (OtherError ''Test exception''),
    \<lparr> target = [''apply 0001''], schema = [''BASELINE'', ''0001''],
      trace = [EvAddMigration ''0001'' True, EvBegin, EvApply ''0001'', EvOnApply ''0001'',
               EvCommit, EvAddMigration ''0001'' False,
               EvAddMigration ''0002'' True, EvBegin, EvApply ''0002'', EvOnApply ''0002'',
               EvAbort] \<rparr>)"
proof -
  let ?ex = "fresh_executor [proc ''0001'', proc ''0002'', proc ''0003'']"
  let ?cb = "\<lambda>m :: string list migration.
               if version m = ''0002'' then Some (OtherError ''Test exception'') else None"
  let ?w = "\<lparr> target = [], schema = [''BASELINE''], trace = [] \<rparr>
              :: (string list, string list) world"
  let ?w1 = "\<lparr> target = [''apply 0001''], schema = [''BASELINE'', ''0001''],
               trace = [EvAddMigration ''0001'' True, EvBegin, EvApply ''0001'',
                        EvOnApply ''0001'', EvCommit, EvAddMigration ''0001'' False] \<rparr>
              :: (string list, string list) world"
  have earlier: "migrate_loop ?ex (Some ?cb) [proc ''0001''] ?w = (None, ?w1)"
    by code_simp
  have dry: "fst (dao_add_migration ?ex (proc ''0002'') Zero True ?w1) = None"
    by code_simp
  have body: "apply_migration (run (driver ?ex)) (proc ''0002'') (target ?w1) =
                Inr [''apply 0001'', ''apply 0002'']"
    by code_simp
  have cb: "?cb (proc ''0002'') = Some (OtherError ''Test exception'')"
    by simp
  from on_apply_failure_aborts [OF earlier dry body cb, of "[proc ''0003'']"]
  show ?thesis by simp
qed

section \<open>Rolling back\<close>

text \<open>
  Claim C5. \<open>rollback\<close> raises the \<open>ValueError\<close> "No migrations found to rollback."
  when nothing is applied; with no target version it rolls back the last applied entry
  alone; with a target version that is applied it rolls back the entries after its first
  occurrence, the most recent first; with a target version that is not applied it raises
  the \<open>ValueError\<close> "not found in applied migrations".
\<close>

theorem rollback_selection:
  assumes "get_applied_migrations (driver ex) (schema w) = applied"
  shows "rollback ex ver on_rollback w =
     (if applied = [] then (Some (ValueError ''No migrations found to rollback.''), w)
      else case ver of
             None \<Rightarrow> rollback_loop ex on_rollback [last applied] w
           | Some v \<Rightarrow>
               if v \<in> set (map version applied)
               then rollback_loop ex on_rollback
                      (rev (tl (dropWhile (\<lambda>m. version m \<noteq> v) applied))) w
               else (Some (ValueError
                       (''Migration version '' @ v @ '' not found in applied migrations.'')), w))"
  by (simp add: rollback_def assms migrations_to_rollback_cases split: option.splits del: set_map)

theorem rollback_selection_witness:
  "get_applied_migrations list_store [''BASELINE'', ''0001'', ''0002'', ''0003''] =
     [Migration ''0001'' [] ''CYPHER'' None None, Migration ''0002'' [] ''CYPHER'' None None,
      Migration ''0003'' [] ''CYPHER'' None None] \<and>
   rollback (fresh_executor [proc ''0001'', proc ''0002'', proc ''0003'']) (Some ''0001'') None
     \<lparr> target = [], schema = [''BASELINE'', ''0001'', ''0002'', ''0003''], trace = [] \<rparr> =
   rollback_loop (fresh_executor [proc ''0001'', proc ''0002'', proc ''0003'']) None
     [Migration ''0003'' [] ''CYPHER'' None None, Migration ''0002'' [] ''CYPHER'' None None]
     \<lparr> target = [], schema = [''BASELINE'', ''0001'', ''0002'', ''0003''], trace = [] \<rparr>"
proof -
  let ?ex = "fresh_executor [proc ''0001'', proc ''0002'', proc ''0003'']"
  let ?w = "\<lparr> target = [], schema = [''BASELINE'', ''0001'', ''0002'', ''0003''], trace = [] \<rparr>
              :: (string list, string list) world"
  have app: "get_applied_migrations (driver ?ex) (schema ?w) =
     [Migration ''0001'' [] ''CYPHER'' None None, Migration ''0002'' [] ''CYPHER'' None None,
      Migration ''0003'' [] ''CYPHER'' None None]"
    by (simp add: get_applied_migrations_def fresh_executor_def list_store_def from_dict_def)
  from rollback_selection [OF app, of "Some ''0001''" None] app show ?thesis
    by (simp add: fresh_executor_def)
qed

text \<open>
  Claim C9. When the loop of \<open>rollback\<close> reaches an entry whose local migration has no
  backward body, it ends with the \<open>ValueError\<close> "does not support rollback" for that
  version; the transaction is aborted, \<open>remove_migration\<close> is called neither for that
  entry nor for the entries after it, and the ledger is what the earlier entries left.
\<close>

theorem rollback_without_backward_body:
  assumes "rollback_loop ex on_rollback pre w = (None, w1)"
      and "find_local (version m) (local_migrations ex) = Some lm"
      and "\<not> has_backward_body lm"
  shows "rollback_loop ex on_rollback (pre @ m # rest) w =
           (Some (ValueError (''Migration V'' @ version m @ '' does not support rollback: '' @
                    (case impl lm of
                       BaseImpl \<Rightarrow> []
                     | _ \<Rightarrow> ''Rollback not implemented for migration V'' @ version lm))),
            w1\<lparr>trace := trace w1 @ [EvBegin, EvRollback (version m), EvAbort]\<rparr>)"
proof -
  have "rollback_migration (run (driver ex)) lm (target w1) =
          Inl (NotImplementedError
                 (case impl lm of
                    BaseImpl \<Rightarrow> []
                  | _ \<Rightarrow> ''Rollback not implemented for migration V'' @ version lm))"
    using assms(3)
    by (simp add: rollback_migration_def has_backward_body_def split: impl.splits option.splits)
  then have "rollback_one ex on_rollback m w1 =
          (Some (ValueError (''Migration V'' @ version m @ '' does not support rollback: '' @
                    (case impl lm of
                       BaseImpl \<Rightarrow> []
                     | _ \<Rightarrow> ''Rollback not implemented for migration V'' @ version lm))),
            w1\<lparr>trace := trace w1 @ [EvBegin, EvRollback (version m), EvAbort]\<rparr>)"
    by (simp add: rollback_one_def assms(2) Let_def emit_def reraise_def)
  then show ?thesis
    by (simp add: rollback_loop_append assms(1))
qed

theorem rollback_without_backward_body_witness:
  "rollback_loop (fresh_executor [proc ''0001'', proc_forward_only ''0002'', proc ''0003'']) None
     ([Migration ''0003'' [] ''CYPHER'' None None] @ Migration ''0002'' [] ''CYPHER'' None None # [])
     \<lparr> target = [], schema = [''BASELINE'', ''0001'', ''0002'', ''0003''], trace = [] \<rparr> =
   (Some (ValueError
      ''Migration V0002 does not support rollback: Rollback not implemented for migration V0002''),
    \<lparr> target = [''undo 0003''], schema = [''BASELINE'', ''0001'', ''0002''],
      trace = [EvBegin, EvRollback ''0003'', EvRemoveMigration ''0003'', EvCommit,
               EvBegin, EvRollback ''0002'', EvAbort] \<rparr>)"
proof -
  let ?ex = "fresh_executor [proc ''0001'', proc_forward_only ''0002'', proc ''0003'']"
  let ?w = "\<lparr> target = [], schema = [''BASELINE'', ''0001'', ''0002'', ''0003''], trace = [] \<rparr>
              :: (string list, string list) world"
  let ?w1 = "\<lparr> target = [''undo 0003''], schema = [''BASELINE'', ''0001'', ''0002''],
               trace = [EvBegin, EvRollback ''0003'', EvRemoveMigration ''0003'', EvCommit] \<rparr>
              :: (string list, string list) world"
  have earlier: "rollback_loop ?ex None [Migration ''0003'' [] ''CYPHER'' None None] ?w = (None, ?w1)"
    by code_simp
  have loc: "find_local (version (Migration ''0002'' [] ''CYPHER'' None None :: string list migration))
               (local_migrations ?ex) = Some (proc_forward_only ''0002'')"
    by (simp add: fresh_executor_def)
  have nob: "\<not> has_backward_body (proc_forward_only ''0002'')"
    by (simp add: has_backward_body_def proc_forward_only_def PythonMigration_def)
  from rollback_without_backward_body [OF earlier loc nob, of "[]"]
  show ?thesis by (simp add: proc_forward_only_def PythonMigration_def)
qed

text \<open>
  Claim C3, as stated: for each entry the transaction of the backward body commits and
  only then \<open>remove_migration\<close> is called. In the code the call of \<open>remove_migration\<close>
  comes before the commit.
\<close>

theorem rollback_commit_then_remove_counterexample:
  "rollback (fresh_executor [proc ''0001'']) None (Some (\<lambda>m. None))
     \<lparr> target = [''apply 0001''], schema = [''BASELINE'', ''0001''], trace = [] \<rparr> =
   (None,
    \<lparr> target = [''apply 0001'', ''undo 0001''], schema = [''BASELINE''],
      trace = [EvBegin, EvRollback ''0001'', EvOnRollback ''0001'',
               EvRemoveMigration ''0001'', EvCommit] \<rparr>)"
  by code_simp

text \<open>
  Claim C3, amended. For each entry whose backward body and callback return, the calls
  are: begin the transaction, the backward body, the callback, \<open>remove_migration\<close>, and
  then the commit. \<open>remove_migration\<close> is called inside the transaction of the backward
  body; when it raises, that transaction is aborted and neither database changes.
\<close>

theorem rollback_removes_before_commit:
  assumes "find_local (version m) (local_migrations ex) = Some lm"
      and "rollback_migration (run (driver ex)) lm (target w) = Inr d"
      and "(case on_rollback of None \<Rightarrow> None | Some cb \<Rightarrow> cb lm) = None"
  shows "rollback_one ex on_rollback m w =
     (case remove_migration (driver ex) (version m) (schema w) of
        (None, g) \<Rightarrow>
          (None, \<lparr> target = d, schema = g,
                   trace = trace w @ [EvBegin, EvRollback (version m)] @
                     (case on_rollback of None \<Rightarrow> [] | Some cb \<Rightarrow> [EvOnRollback (version m)]) @
                     [EvRemoveMigration (version m), EvCommit] \<rparr>)
      | (Some e, g) \<Rightarrow>
          (Some (reraise (version m) e),
           \<lparr> target = target w, schema = schema w,
             trace = trace w @ [EvBegin, EvRollback (version m)] @
               (case on_rollback of None \<Rightarrow> [] | Some cb \<Rightarrow> [EvOnRollback (version m)]) @
               [EvRemoveMigration (version m), EvAbort] \<rparr>))"
proof (cases "remove_migration (driver ex) (version m) (schema w)")
  case (Pair r g)
  show ?thesis
  proof (cases r)
    case None
    with Pair assms show ?thesis
      by (cases on_rollback) (simp_all add: rollback_one_def Let_def emit_def)
  next
    case (Some e)
    with Pair remove_migration_failed [of "driver ex" "version m" "schema w" e g]
    have "g = schema w" by simp
    with Pair Some assms show ?thesis
      by (cases on_rollback) (simp_all add: rollback_one_def Let_def emit_def)
  qed
qed

theorem rollback_removes_before_commit_witness:
  "rollback_one (fresh_executor [proc ''0001'', proc ''0002'']) None
     (Migration ''0002'' [] ''CYPHER'' None None)
     \<lparr> target = [], schema = [''BASELINE'', ''0001'', ''0002''], trace = [] \<rparr> =
   (None,
    \<lparr> target = [''undo 0002''], schema = [''BASELINE'', ''0001''],
      trace = [EvBegin, EvRollback ''0002'', EvRemoveMigration ''0002'', EvCommit] \<rparr>)"
proof -
  let ?ex = "fresh_executor [proc ''0001'', proc ''0002'']"
  let ?m = "Migration ''0002'' [] ''CYPHER'' None None :: string list migration"
  let ?w = "\<lparr> target = [], schema = [''BASELINE'', ''0001'', ''0002''], trace = [] \<rparr>
              :: (string list, string list) world"
  have loc: "find_local (version ?m) (local_migrations ?ex) = Some (proc ''0002'')"
    by (simp add: fresh_executor_def)
  have body: "rollback_migration (run (driver ?ex)) (proc ''0002'') (target ?w) =
                Inr [''undo 0002'']"
    by code_simp
  have cb: "(case None :: (string list migration \<Rightarrow> error option) option of
              None \<Rightarrow> None | Some cb \<Rightarrow> cb (proc ''0002'')) = None"
    by simp
  have rem: "remove_migration (driver ?ex) (version ?m) (schema ?w) =
               (None, [''BASELINE'', ''0001''])"
    by code_simp
  from rollback_removes_before_commit [OF loc body cb] rem
  show ?thesis by simp
qed

end
